theory Spec2Isabelle
  imports Complex_Main
begin

section \<open>Values of the host language\<close>

text \<open>
  The inspectors of \<^verbatim>\<open>src/inspect.ts\<close> take a value of type \<^verbatim>\<open>any\<close>. A number is an
  IEEE double: not-a-number, the two infinities, or a finite value, which is kept here as
  the rational it denotes (the two zeros are one value: \<^verbatim>\<open>===\<close>, \<^verbatim>\<open>>=\<close>,
  \<^verbatim>\<open>>>>\<close> and \<^verbatim>\<open>Number.isInteger\<close> do not tell them apart).
\<close>

datatype jsnum = NaN | PInf | NInf | Finite rat

type_synonym addr = nat

text \<open>An object is a reference into the store; two references are the same object exactly
  when the addresses are equal.\<close>

datatype val =
    VUndefined
  | VNull
  | VBool bool
  | VNum jsnum
  | VBigInt int
  | VStr string
  | VSym nat
  | VObj addr

text \<open>What a \<^verbatim>\<open>throw\<close> carries: the host's own \<^verbatim>\<open>TypeError\<close>, or a value thrown by
  a callback.\<close>

datatype exn = TypeError | Thrown val

text \<open>A property key is an array index or a name that is not an array index.\<close>

datatype pkey = Index nat | Name string

text \<open>The constructors \<^verbatim>\<open>instanceof\<close> is asked about.\<close>

datatype ctor =
    Object_ctor | Function_ctor | Array_ctor | String_ctor | Number_ctor | Boolean_ctor
  | Map_ctor | Set_ctor | Class_ctor nat

text \<open>What \<^verbatim>\<open>for (const v of x)\<close> obtains from an iterable: the values it yields, and
  the error that ends the iteration if it does not finish normally. An iteration that
  never ends is outside the model.\<close>

datatype production = Production (yields: "val list") (failure: "exn option")

text \<open>
  An object is recorded by what the inspectors can observe of it:
  \<^item> \<open>callable\<close>: \<^verbatim>\<open>typeof x === "function"\<close>;
  \<^item> \<open>instance_of\<close>: the constructors whose prototype lies on its prototype chain;
  \<^item> \<open>own\<close>: its own string-keyed properties in \<^verbatim>\<open>for-in\<close> order, each with its
    value and its enumerable flag (an array's elements and its \<^verbatim>\<open>length\<close> are such
    properties);
  \<^item> \<open>inherited\<close>: the properties it sees through its prototype chain, nearest first;
    they are not enumerable, as those of every built-in prototype and of every class;
  \<^item> \<open>iterate\<close>: \<open>None\<close> when \<^verbatim>\<open>x[Symbol.iterator]\<close> is not a function, otherwise
    what iterating the object produces;
  \<^item> \<open>map_data\<close>: the entries of a \<^verbatim>\<open>Map\<close>, in insertion order;
  \<^item> \<open>to_number_error\<close>: the error that converting the object to a number raises, if any.
  Accessor properties and proxies are outside the model.
\<close>

record obj =
  callable :: bool
  instance_of :: "ctor list"
  own :: "(pkey \<times> val \<times> bool) list"
  inherited :: "(pkey \<times> val) list"
  iterate :: "production option"
  map_data :: "(val \<times> val) list option"
  to_number_error :: "exn option"

type_synonym heap = "addr \<Rightarrow> obj"

datatype jstype =
  TUndefined | TObject | TBoolean | TNumber | TBigInt | TString | TSymbol | TFunction

fun typeof :: "heap \<Rightarrow> val \<Rightarrow> jstype" where
  "typeof h VUndefined = TUndefined"
| "typeof h VNull = TObject"
| "typeof h (VBool b) = TBoolean"
| "typeof h (VNum n) = TNumber"
| "typeof h (VBigInt i) = TBigInt"
| "typeof h (VStr s) = TString"
| "typeof h (VSym k) = TSymbol"
| "typeof h (VObj a) = (if callable (h a) then TFunction else TObject)"

fun instanceof :: "heap \<Rightarrow> val \<Rightarrow> ctor \<Rightarrow> bool" where
  "instanceof h (VObj a) C = (C \<in> set (instance_of (h a)))"
| "instanceof h x C = False"

text \<open>\<^verbatim>\<open>x === y\<close>: no number equals \<^verbatim>\<open>NaN\<close>, objects are compared by reference.\<close>

fun strict_eq :: "val \<Rightarrow> val \<Rightarrow> bool" where
  "strict_eq (VNum a) (VNum b) = (a \<noteq> NaN \<and> b \<noteq> NaN \<and> a = b)"
| "strict_eq x y = (x = y)"

section \<open>Numbers\<close>

text \<open>\<^verbatim>\<open>Number.isInteger\<close>: a finite number with no fractional part.\<close>

fun Number_isInteger :: "val \<Rightarrow> bool" where
  "Number_isInteger (VNum (Finite r)) = (of_int \<lfloor>r\<rfloor> = r)"
| "Number_isInteger x = False"

text \<open>\<^verbatim>\<open>ToUint32\<close>: not-a-number and the infinities become 0; a finite number is
  truncated towards zero and reduced modulo \<open>2^32\<close>.\<close>

fun ToUint32 :: "jsnum \<Rightarrow> int" where
  "ToUint32 (Finite r) = (if r < 0 then \<lceil>r\<rceil> else \<lfloor>r\<rfloor>) mod 2 ^ 32"
| "ToUint32 n = 0"

text \<open>\<^verbatim>\<open>a >= b\<close> and \<^verbatim>\<open>a <= b\<close> on numbers: false whenever an operand is \<^verbatim>\<open>NaN\<close>.\<close>

fun num_le :: "jsnum \<Rightarrow> jsnum \<Rightarrow> bool" where
  "num_le NaN b = False"
| "num_le a NaN = False"
| "num_le NInf b = True"
| "num_le a PInf = True"
| "num_le PInf b = False"
| "num_le a NInf = False"
| "num_le (Finite r) (Finite q) = (r \<le> q)"

definition isNumber :: "heap \<Rightarrow> val \<Rightarrow> bool" where
  "isNumber h x = (typeof h x = TNumber)"

definition isInt :: "val \<Rightarrow> bool" where
  "isInt x = Number_isInteger x"

text \<open>
  \<^verbatim>\<open>x >>> 0 === x\<close>. The shift first converts \<open>x\<close> to a number: a BigInt and a symbol
  raise \<^verbatim>\<open>TypeError\<close>, an object raises what its conversion raises. Where the conversion
  completes on a value that is not a number, the shifted number is compared with a value
  of another type, and \<^verbatim>\<open>===\<close> is false.
\<close>

fun isUInt32 :: "heap \<Rightarrow> val \<Rightarrow> exn + bool" where
  "isUInt32 h (VNum n) = Inr (strict_eq (VNum (Finite (of_int (ToUint32 n)))) (VNum n))"
| "isUInt32 h (VBigInt i) = Inl TypeError"
| "isUInt32 h (VSym k) = Inl TypeError"
| "isUInt32 h (VObj a) =
     (case to_number_error (h a) of Some e \<Rightarrow> Inl e | None \<Rightarrow> Inr False)"
| "isUInt32 h x = Inr False"

text \<open>\<^verbatim>\<open>Number.isInteger(x) && x >= 0 && x <= 255\<close>: the comparisons are reached only
  by a number.\<close>

fun isUInt8 :: "val \<Rightarrow> bool" where
  "isUInt8 (VNum n) =
     (Number_isInteger (VNum n) \<and> num_le (Finite 0) n \<and> num_le n (Finite 255))"
| "isUInt8 x = False"

section \<open>Basic inspectors\<close>

definition isUndefined :: "val \<Rightarrow> bool" where
  "isUndefined x = strict_eq x VUndefined"

definition isNull :: "val \<Rightarrow> bool" where
  "isNull x = strict_eq x VNull"

text \<open>\<^verbatim>\<open>x == null\<close>: loose equality with \<^verbatim>\<open>null\<close> holds for \<^verbatim>\<open>null\<close> and
  \<^verbatim>\<open>undefined\<close> only.\<close>

definition isNullish :: "val \<Rightarrow> bool" where
  "isNullish x = (x = VNull \<or> x = VUndefined)"

definition isBoolean :: "val \<Rightarrow> bool" where
  "isBoolean x = (strict_eq x (VBool True) \<or> strict_eq x (VBool False))"

definition isString :: "heap \<Rightarrow> val \<Rightarrow> bool" where
  "isString h x = (typeof h x = TString \<or> instanceof h x String_ctor)"

definition isPrimitive :: "heap \<Rightarrow> val \<Rightarrow> bool" where
  "isPrimitive h x = (isNullish x \<or> isNumber h x \<or> isString h x \<or> isBoolean x)"

definition isArray :: "heap \<Rightarrow> val \<Rightarrow> bool" where
  "isArray h x = instanceof h x Array_ctor"

definition isObject :: "heap \<Rightarrow> val \<Rightarrow> bool" where
  "isObject h x = (\<not> strict_eq x VNull \<and> typeof h x = TObject)"

definition isMap :: "heap \<Rightarrow> val \<Rightarrow> bool" where
  "isMap h x = instanceof h x Map_ctor"

text \<open>What iterating a value produces, \<open>None\<close> when \<^verbatim>\<open>x[Symbol.iterator]\<close> is not a
  function. A primitive string yields its characters, each as a string.\<close>

fun iteration :: "heap \<Rightarrow> val \<Rightarrow> production option" where
  "iteration h (VStr s) = Some (Production (map (\<lambda>c. VStr [c]) s) None)"
| "iteration h (VObj a) = iterate (h a)"
| "iteration h x = None"

definition isIterable :: "heap \<Rightarrow> val \<Rightarrow> bool" where
  "isIterable h x = (\<not> isNullish x \<and> iteration h x \<noteq> None)"

section \<open>Property access\<close>

text \<open>\<^verbatim>\<open>x[key]\<close> on an object: the own property, else the inherited one, else
  \<^verbatim>\<open>undefined\<close>. The inspectors read properties of objects only.\<close>

fun get :: "heap \<Rightarrow> val \<Rightarrow> pkey \<Rightarrow> val" where
  "get h (VObj a) key =
     (case map_of (own (h a)) key of
        Some (v, e) \<Rightarrow> v
      | None \<Rightarrow> (case map_of (inherited (h a)) key of Some v \<Rightarrow> v | None \<Rightarrow> VUndefined))"
| "get h x key = VUndefined"

text \<open>\<^verbatim>\<open>key in x\<close> on an object.\<close>

fun has_property :: "heap \<Rightarrow> val \<Rightarrow> pkey \<Rightarrow> bool" where
  "has_property h (VObj a) key =
     (map_of (own (h a)) key \<noteq> None \<or> map_of (inherited (h a)) key \<noteq> None)"
| "has_property h x key = False"

text \<open>The keys \<^verbatim>\<open>for (const key in x)\<close> visits: the enumerable own properties (the
  inherited ones are not enumerable).\<close>

fun for_in :: "heap \<Rightarrow> val \<Rightarrow> pkey list" where
  "for_in h (VObj a) = map fst (filter (\<lambda>(k, v, e). e) (own (h a)))"
| "for_in h x = []"

section \<open>Inspectors\<close>

text \<open>
  A call returns a value or throws, and may change the state \<open>'s\<close> that callbacks
  (suppliers, hand-written inspectors) close over. The store of inspected objects is
  read, never written.
\<close>

type_synonym ('s, 'a) js = "'s \<Rightarrow> (exn + 'a) \<times> 's"

definition ret :: "'a \<Rightarrow> ('s, 'a) js" where
  "ret a s = (Inr a, s)"

text \<open>
  An inspector is a function value. The library compares an inspector with its own
  \<^verbatim>\<open>isNever\<close> and \<^verbatim>\<open>isAny\<close> by reference, so these two function objects are
  constructors of their own; \<open>Fn\<close> is every other function, given by what a call does.
\<close>

datatype 's inspector = IsNever | IsAny | Fn "heap \<Rightarrow> val \<Rightarrow> ('s, bool) js"

fun call :: "'s inspector \<Rightarrow> heap \<Rightarrow> val \<Rightarrow> ('s, bool) js" where
  "call IsNever h x = ret False"
| "call IsAny h x = ret True"
| "call (Fn f) h x = f h x"

text \<open>A function that computes a predicate: it returns without throwing and leaves the
  state alone.\<close>

definition lift :: "(heap \<Rightarrow> val \<Rightarrow> bool) \<Rightarrow> 's inspector" where
  "lift p = Fn (\<lambda>h x. ret (p h x))"

text \<open>\<open>decides isT p\<close>: the inspector \<open>isT\<close> behaves as the predicate \<open>p\<close>.\<close>

definition decides :: "'s inspector \<Rightarrow> (heap \<Rightarrow> val \<Rightarrow> bool) \<Rightarrow> bool" where
  "decides isT p = (\<forall>h x s. call isT h x s = (Inr (p h x), s))"

text \<open>\<open>is_pure isT\<close>: the inspector behaves as some predicate; \<open>accepts isT h v\<close>: it
  returns \<^verbatim>\<open>true\<close> on \<open>v\<close>, whatever the state.\<close>

definition is_pure :: "'s inspector \<Rightarrow> bool" where
  "is_pure isT = (\<exists>p. decides isT p)"

definition accepts :: "'s inspector \<Rightarrow> heap \<Rightarrow> val \<Rightarrow> bool" where
  "accepts isT h v = (\<forall>s. call isT h v s = (Inr True, s))"

subsection \<open>The lazy inspector\<close>

text \<open>The source's \<^verbatim>\<open>is(lazy)\<close>, named \<open>is_lazy\<close> because \<open>is\<close> is a keyword of
  the proof language: \<^verbatim>\<open>const isT = lazy(); return isT(x);\<close>\<close>

definition is_lazy :: "('s, 's inspector) js \<Rightarrow> 's inspector" where
  "is_lazy lazy = Fn (\<lambda>h x s.
     case lazy s of
       (Inl e, s') \<Rightarrow> (Inl e, s')
     | (Inr isT, s') \<Rightarrow> call isT h x s')"

subsection \<open>Higher-order inspectors\<close>

definition isExact :: "val \<Rightarrow> 's inspector" where
  "isExact v = Fn (\<lambda>h x. ret (strict_eq x v))"

text \<open>\<^verbatim>\<open>inspectors.some(isT => isT(x))\<close> and \<^verbatim>\<open>inspectors.every(isT => isT(x))\<close>.\<close>

fun some_js :: "('a \<Rightarrow> ('s, bool) js) \<Rightarrow> 'a list \<Rightarrow> ('s, bool) js" where
  "some_js f [] s = (Inr False, s)"
| "some_js f (a # as) s =
     (case f a s of
        (Inl e, s') \<Rightarrow> (Inl e, s')
      | (Inr b, s') \<Rightarrow> if b then (Inr True, s') else some_js f as s')"

fun every_js :: "('a \<Rightarrow> ('s, bool) js) \<Rightarrow> 'a list \<Rightarrow> ('s, bool) js" where
  "every_js f [] s = (Inr True, s)"
| "every_js f (a # as) s =
     (case f a s of
        (Inl e, s') \<Rightarrow> (Inl e, s')
      | (Inr b, s') \<Rightarrow> if b then every_js f as s' else (Inr False, s'))"

definition isAnyOf :: "'s inspector list \<Rightarrow> 's inspector" where
  "isAnyOf inspectors = Fn (\<lambda>h x. some_js (\<lambda>isT. call isT h x) inspectors)"

definition isAllOf :: "'s inspector list \<Rightarrow> 's inspector" where
  "isAllOf inspectors = Fn (\<lambda>h x. every_js (\<lambda>isT. call isT h x) inspectors)"

definition isOptional :: "'s inspector \<Rightarrow> 's inspector" where
  "isOptional isT = isAnyOf [lift (\<lambda>h. isUndefined), isT]"

text \<open>\<^verbatim>\<open>for (const v of x) if (!isT(v)) return false; return true;\<close> over what the
  iteration produces.\<close>

fun for_of_every :: "(val \<Rightarrow> ('s, bool) js) \<Rightarrow> val list \<Rightarrow> exn option \<Rightarrow> ('s, bool) js" where
  "for_of_every f [] fin s = (case fin of None \<Rightarrow> (Inr True, s) | Some e \<Rightarrow> (Inl e, s))"
| "for_of_every f (v # vs) fin s =
     (case f v s of
        (Inl e, s') \<Rightarrow> (Inl e, s')
      | (Inr b, s') \<Rightarrow> if b then for_of_every f vs fin s' else (Inr False, s'))"

text \<open>
  The body of \<^verbatim>\<open>isIterableOf(isT)\<close>, on the iteration of its argument: not iterable,
  the two comparisons by reference, then the loop. \<^verbatim>\<open>isMapOf\<close> runs the same body on
  the iterators \<^verbatim>\<open>x.keys()\<close> and \<^verbatim>\<open>x.values()\<close>, fresh objects that are observed
  through their iteration only.
\<close>

definition iterableOf :: "'s inspector \<Rightarrow> heap \<Rightarrow> production option \<Rightarrow> ('s, bool) js" where
  "iterableOf isT h it s =
     (case it of
        None \<Rightarrow> (Inr False, s)
      | Some p \<Rightarrow>
          (case isT of
             IsNever \<Rightarrow> (Inr False, s)
           | IsAny \<Rightarrow> (Inr True, s)
           | Fn f \<Rightarrow> for_of_every (call isT h) (yields p) (failure p) s))"

definition isIterableOf :: "'s inspector \<Rightarrow> 's inspector" where
  "isIterableOf isT = Fn (\<lambda>h x.
     iterableOf isT h (if isIterable h x then iteration h x else None))"

text \<open>\<^verbatim>\<open>x.keys()\<close> and \<^verbatim>\<open>x.values()\<close> of the built-in \<^verbatim>\<open>Map\<close>: an iterator over
  the keys (the values) in insertion order; \<^verbatim>\<open>TypeError\<close> on a receiver that holds no
  Map data.\<close>

definition Map_keys :: "heap \<Rightarrow> val \<Rightarrow> exn + production" where
  "Map_keys h x =
     (case x of
        VObj a \<Rightarrow>
          (case map_data (h a) of
             Some es \<Rightarrow> Inr (Production (map fst es) None)
           | None \<Rightarrow> Inl TypeError)
      | _ \<Rightarrow> Inl TypeError)"

definition Map_values :: "heap \<Rightarrow> val \<Rightarrow> exn + production" where
  "Map_values h x =
     (case x of
        VObj a \<Rightarrow>
          (case map_data (h a) of
             Some es \<Rightarrow> Inr (Production (map snd es) None)
           | None \<Rightarrow> Inl TypeError)
      | _ \<Rightarrow> Inl TypeError)"

text \<open>\<^verbatim>\<open>isMap(x) && isIterableOf(isK)(x.keys()) && isIterableOf(isV)(x.values())\<close>\<close>

definition isMapOf :: "'s inspector \<Rightarrow> 's inspector \<Rightarrow> 's inspector" where
  "isMapOf isK isV = Fn (\<lambda>h x s.
     if \<not> isMap h x then (Inr False, s)
     else
       (case Map_keys h x of
          Inl e \<Rightarrow> (Inl e, s)
        | Inr ks \<Rightarrow>
            (case iterableOf isK h (Some ks) s of
               (Inl e, s') \<Rightarrow> (Inl e, s')
             | (Inr b, s') \<Rightarrow>
                 if \<not> b then (Inr False, s')
                 else
                   (case Map_values h x of
                      Inl e \<Rightarrow> (Inl e, s')
                    | Inr vs \<Rightarrow> iterableOf isV h (Some vs) s'))))"

text \<open>The loop of \<^verbatim>\<open>isTupleOf\<close>:
  \<^verbatim>\<open>for (let i = 0; i < inspectors.length; ++i) if (!inspectors[i](x[i])) return false;\<close>\<close>

function tuple_loop :: "'s inspector list \<Rightarrow> heap \<Rightarrow> val \<Rightarrow> nat \<Rightarrow> ('s, bool) js" where
  "tuple_loop inspectors h x i s =
     (if i < length inspectors then
        (case call (inspectors ! i) h (get h x (Index i)) s of
           (Inl e, s') \<Rightarrow> (Inl e, s')
         | (Inr b, s') \<Rightarrow> if b then tuple_loop inspectors h x (Suc i) s' else (Inr False, s'))
      else (Inr True, s))"
  by pat_completeness auto
termination
  by (relation "measure (\<lambda>(inspectors, h, x, i, s). length inspectors - i)") auto

declare tuple_loop.simps [simp del]

definition isTupleOf :: "'s inspector list \<Rightarrow> 's inspector" where
  "isTupleOf inspectors = Fn (\<lambda>h x s.
     if \<not> isArray h x then (Inr False, s) else tuple_loop inspectors h x 0 s)"

subsection \<open>Shapes\<close>

text \<open>
  A shape is the object literal handed to \<^verbatim>\<open>isObjectOf\<close> and \<^verbatim>\<open>isPartialOf\<close>: its
  own enumerable string-keyed properties, each an inspector, in the order of
  \<^verbatim>\<open>Object.entries\<close>.
  Like every object literal it inherits the members of \<^verbatim>\<open>Object.prototype\<close>, which
  the operator \<^verbatim>\<open>in\<close> and a property read see as well.
\<close>

type_synonym 's shape = "(pkey \<times> 's inspector) list"

text \<open>
  The members of \<^verbatim>\<open>Object.prototype\<close>, by what a call \<^verbatim>\<open>f(v)\<close> of the member
  does when it is called as a plain function, that is with \<^verbatim>\<open>this\<close> undefined:
  \<^item> \<open>Object_function\<close> (\<^verbatim>\<open>constructor\<close>): returns an object;
  \<^item> \<open>toString_method\<close>: returns the string \<^verbatim>\<open>[object Undefined]\<close>;
  \<^item> \<open>isPrototypeOf_method\<close>: returns \<^verbatim>\<open>false\<close> for a primitive argument and, for
    an object, converts \<^verbatim>\<open>this\<close> to an object, which raises \<^verbatim>\<open>TypeError\<close>;
  \<^item> \<open>receiver_method\<close>: converts \<^verbatim>\<open>this\<close> to an object, which raises
    \<^verbatim>\<open>TypeError\<close>;
  \<^item> \<open>proto_accessor\<close> (\<^verbatim>\<open>__proto__\<close>): reading it gives the prototype, an object
    that is not a function, and calling that raises \<^verbatim>\<open>TypeError\<close>.
\<close>

datatype proto_member =
  Object_function | toString_method | isPrototypeOf_method | receiver_method | proto_accessor

definition Object_prototype :: "(string \<times> proto_member) list" where
  "Object_prototype =
     [(''constructor'', Object_function),
      (''__defineGetter__'', receiver_method),
      (''__defineSetter__'', receiver_method),
      (''hasOwnProperty'', receiver_method),
      (''__lookupGetter__'', receiver_method),
      (''__lookupSetter__'', receiver_method),
      (''isPrototypeOf'', isPrototypeOf_method),
      (''propertyIsEnumerable'', receiver_method),
      (''toString'', toString_method),
      (''valueOf'', receiver_method),
      (''__proto__'', proto_accessor),
      (''toLocaleString'', receiver_method)]"

text \<open>What \<^verbatim>\<open>type[key]\<close> finds in a shape.\<close>

datatype 's member = Own "'s inspector" | Inherited proto_member | Absent

fun inherited_member :: "pkey \<Rightarrow> proto_member option" where
  "inherited_member (Name n) = map_of Object_prototype n"
| "inherited_member (Index i) = None"

definition shape_get :: "'s shape \<Rightarrow> pkey \<Rightarrow> 's member" where
  "shape_get shape key =
     (case map_of shape key of
        Some isV \<Rightarrow> Own isV
      | None \<Rightarrow> (case inherited_member key of Some m \<Rightarrow> Inherited m | None \<Rightarrow> Absent))"

text \<open>\<^verbatim>\<open>key in type\<close>\<close>

definition shape_has :: "'s shape \<Rightarrow> pkey \<Rightarrow> bool" where
  "shape_has shape key = (case shape_get shape key of Absent \<Rightarrow> False | _ \<Rightarrow> True)"

text \<open>The outcome of \<^verbatim>\<open>f(v)\<close> for a member of \<^verbatim>\<open>Object.prototype\<close>; a returned
  value is given by its truth value, which is all \<^verbatim>\<open>!isV(x[key])\<close> reads.\<close>

fun call_proto_member :: "proto_member \<Rightarrow> val \<Rightarrow> exn + bool" where
  "call_proto_member Object_function v = Inr True"
| "call_proto_member toString_method v = Inr True"
| "call_proto_member isPrototypeOf_method (VObj a) = Inl TypeError"
| "call_proto_member isPrototypeOf_method v = Inr False"
| "call_proto_member receiver_method v = Inl TypeError"
| "call_proto_member proto_accessor v = Inl TypeError"

text \<open>\<^verbatim>\<open>isV(v)\<close> where \<^verbatim>\<open>isV = type[key]\<close>; calling \<^verbatim>\<open>undefined\<close> raises
  \<^verbatim>\<open>TypeError\<close>.\<close>

fun call_member :: "'s member \<Rightarrow> heap \<Rightarrow> val \<Rightarrow> ('s, bool) js" where
  "call_member (Own isV) h v s = call isV h v s"
| "call_member (Inherited m) h v s = (call_proto_member m v, s)"
| "call_member Absent h v s = (Inl TypeError, s)"

text \<open>The loop of \<^verbatim>\<open>isObjectOf\<close>:
  \<^verbatim>\<open>for (const [key, isV] of Object.entries(type)) if (!isV(x[key])) return false;\<close>\<close>

fun object_loop :: "'s shape \<Rightarrow> heap \<Rightarrow> val \<Rightarrow> ('s, bool) js" where
  "object_loop [] h x s = (Inr True, s)"
| "object_loop ((key, isV) # rest) h x s =
     (case call isV h (get h x key) s of
        (Inl e, s') \<Rightarrow> (Inl e, s')
      | (Inr b, s') \<Rightarrow> if b then object_loop rest h x s' else (Inr False, s'))"

definition isObjectOf :: "'s shape \<Rightarrow> 's inspector" where
  "isObjectOf shape = Fn (\<lambda>h x s.
     if \<not> isObject h x then (Inr False, s) else object_loop shape h x s)"

text \<open>The loop of \<^verbatim>\<open>isPartialOf\<close>:
  \<^verbatim>\<open>for (const key in x) if (key in type) { const isV = type[key]; if (!isV(x[key])) return false; }\<close>\<close>

fun partial_loop :: "pkey list \<Rightarrow> 's shape \<Rightarrow> heap \<Rightarrow> val \<Rightarrow> ('s, bool) js" where
  "partial_loop [] shape h x s = (Inr True, s)"
| "partial_loop (key # keys) shape h x s =
     (if shape_has shape key then
        (case call_member (shape_get shape key) h (get h x key) s of
           (Inl e, s') \<Rightarrow> (Inl e, s')
         | (Inr b, s') \<Rightarrow> if b then partial_loop keys shape h x s' else (Inr False, s'))
      else partial_loop keys shape h x s)"

definition isPartialOf :: "'s shape \<Rightarrow> 's inspector" where
  "isPartialOf shape = Fn (\<lambda>h x s.
     if \<not> isObject h x then (Inr False, s) else partial_loop (for_in h x) shape h x s)"

section \<open>Objects of the host, for concrete runs\<close>

text \<open>A built-in function object, and the object \<^verbatim>\<open>Object.prototype\<close> itself.\<close>

definition builtin_function :: obj where
  "builtin_function =
     \<lparr>callable = True, instance_of = [Function_ctor, Object_ctor],
      own = [(Name ''length'', VNum (Finite 0), False), (Name ''name'', VStr [], False)],
      inherited = [], iterate = None, map_data = None, to_number_error = None\<rparr>"

text \<open>In the stores used below, address \<open>i\<close> below 12 holds the value of the \<open>i\<close>-th
  member of \<^verbatim>\<open>Object.prototype\<close>.\<close>

definition inherited_from_Object :: "(pkey \<times> val) list" where
  "inherited_from_Object =
     map (\<lambda>(i, n, m). (Name n, VObj i)) (enumerate 0 Object_prototype)"

definition Object_prototype_object :: obj where
  "Object_prototype_object =
     \<lparr>callable = False, instance_of = [],
      own = map (\<lambda>(k, v). (k, v, False)) inherited_from_Object,
      inherited = [], iterate = None, map_data = None, to_number_error = None\<rparr>"

definition realm :: heap where
  "realm = (\<lambda>a. builtin_function)(10 := Object_prototype_object)"

text \<open>The object literal \<^verbatim>\<open>{k1: v1, ...}\<close>.\<close>

definition object_literal :: "(string \<times> val) list \<Rightarrow> obj" where
  "object_literal kvs =
     \<lparr>callable = False, instance_of = [Object_ctor],
      own = map (\<lambda>(k, v). (Name k, v, True)) kvs,
      inherited = inherited_from_Object,
      iterate = None, map_data = None, to_number_error = None\<rparr>"

text \<open>The array literal \<^verbatim>\<open>[v0, v1, ...]\<close> (of the members of \<^verbatim>\<open>Array.prototype\<close>
  only those it shares with \<^verbatim>\<open>Object.prototype\<close> are listed).\<close>

definition array_literal :: "val list \<Rightarrow> obj" where
  "array_literal vs =
     \<lparr>callable = False, instance_of = [Array_ctor, Object_ctor],
      own = map (\<lambda>(i, v). (Index i, v, True)) (enumerate 0 vs)
            @ [(Name ''length'', VNum (Finite (of_nat (length vs))), False)],
      inherited = inherited_from_Object,
      iterate = Some (Production vs None), map_data = None, to_number_error = None\<rparr>"

text \<open>\<^verbatim>\<open>new Map([[k1, v1], ...])\<close>; iterating the Map itself yields entry arrays,
  here at the addresses \<open>refs\<close>.\<close>

definition map_object :: "(val \<times> val) list \<Rightarrow> addr list \<Rightarrow> obj" where
  "map_object es refs =
     \<lparr>callable = False, instance_of = [Map_ctor, Object_ctor],
      own = [], inherited = inherited_from_Object,
      iterate = Some (Production (map VObj refs) None),
      map_data = Some es, to_number_error = None\<rparr>"

text \<open>\<^verbatim>\<open>new String(s)\<close>, \<^verbatim>\<open>new Number(n)\<close> and \<^verbatim>\<open>new Boolean(b)\<close>.\<close>

definition boxed_string :: "string \<Rightarrow> obj" where
  "boxed_string s =
     \<lparr>callable = False, instance_of = [String_ctor, Object_ctor],
      own = map (\<lambda>(i, c). (Index i, VStr [c], True)) (enumerate 0 s)
            @ [(Name ''length'', VNum (Finite (of_nat (length s))), False)],
      inherited = inherited_from_Object,
      iterate = Some (Production (map (\<lambda>c. VStr [c]) s) None),
      map_data = None, to_number_error = None\<rparr>"

definition boxed_number :: "jsnum \<Rightarrow> obj" where
  "boxed_number n =
     \<lparr>callable = False, instance_of = [Number_ctor, Object_ctor],
      own = [], inherited = inherited_from_Object,
      iterate = None, map_data = None, to_number_error = None\<rparr>"

definition boxed_boolean :: "bool \<Rightarrow> obj" where
  "boxed_boolean b =
     \<lparr>callable = False, instance_of = [Boolean_ctor, Object_ctor],
      own = [], inherited = inherited_from_Object,
      iterate = None, map_data = None, to_number_error = None\<rparr>"

text \<open>An object that has the properties of \<open>ob\<close> and one more, added last.\<close>

definition with_property :: "obj \<Rightarrow> pkey \<Rightarrow> val \<Rightarrow> obj" where
  "with_property ob key v = ob\<lparr>own := own ob @ [(key, v, True)]\<rparr>"

text \<open>An object whose \<^verbatim>\<open>[Symbol.iterator]\<close> is a function that returns no iterator:
  iterating it raises \<^verbatim>\<open>TypeError\<close> before anything is produced.\<close>

definition failing_iterable :: obj where
  "failing_iterable =
     \<lparr>callable = False, instance_of = [Object_ctor],
      own = [], inherited = inherited_from_Object,
      iterate = Some (Production [] (Some TypeError)),
      map_data = None, to_number_error = None\<rparr>"

text \<open>A store with a few arrays, object literals and Maps.\<close>

definition store :: heap where
  "store = realm
     (20 := array_literal [VStr ''a'', VStr ''b''],
      21 := array_literal [],
      22 := object_literal [(''name'', VStr ''Ann'')],
      23 := object_literal [(''name'', VStr ''Ann''), (''extra'', VNum (Finite 1))],
      24 := map_object [(VStr ''a'', VNum (Finite 1)), (VStr ''b'', VNum (Finite 2))] [30, 31],
      25 := map_object [] [],
      26 := object_literal [(''valueOf'', VNum (Finite 1))],
      27 := array_literal [VStr ''x'', VNum (Finite 1), VBool True, VStr ''extra''],
      28 := array_literal [VStr ''x'', VNum (Finite 1), VBool True],
      29 := array_literal [VStr ''a'', VNum (Finite 1)],
      30 := array_literal [VStr ''a'', VNum (Finite 1)],
      31 := array_literal [VStr ''b'', VNum (Finite 2)],
      32 := object_literal [(''name'', VNum (Finite 7))],
      33 := object_literal [],
      34 := failing_iterable,
      35 := object_literal [(''isPrototypeOf'', VNum (Finite 1))])"

text \<open>Two suppliers for the lazy inspector, over a state that counts their calls: one
  answers \<^verbatim>\<open>isString\<close> on even counts and \<^verbatim>\<open>isNumber\<close> on odd ones, one throws.\<close>

definition alternating_supplier :: "(nat, nat inspector) js" where
  "alternating_supplier n = (Inr (if even n then lift isString else lift isNumber), Suc n)"

definition throwing_supplier :: "(nat, nat inspector) js" where
  "throwing_supplier n = (Inl (Thrown (VStr ''Evaluation error'')), Suc n)"

section \<open>Inspectors that compute a predicate\<close>

lemma decides_lift: "decides (lift p) p"
  by (simp add: decides_def lift_def ret_def)

lemma decides_IsAny: "decides IsAny (\<lambda>h x. True)"
  by (simp add: decides_def ret_def)

lemma decides_IsNever: "decides IsNever (\<lambda>h x. False)"
  by (simp add: decides_def ret_def)

lemma is_pure_lift: "is_pure (lift p)"
  unfolding is_pure_def using decides_lift by blast

lemma is_pure_IsAny: "is_pure IsAny"
  unfolding is_pure_def using decides_IsAny by blast

lemma is_pure_IsNever: "is_pure IsNever"
  unfolding is_pure_def using decides_IsNever by blast

lemma decides_accepts: "decides isT p \<Longrightarrow> accepts isT h v = p h v"
  by (auto simp: decides_def accepts_def)

lemma call_pure: "is_pure isT \<Longrightarrow> call isT h v s = (Inr (accepts isT h v), s)"
  using decides_accepts by (fastforce simp: is_pure_def decides_def)

lemma accepts_lift: "accepts (lift p) h v = p h v"
  by (rule decides_accepts [OF decides_lift])

lemma accepts_IsAny: "accepts IsAny h v"
  by (simp add: accepts_def ret_def)

lemma accepts_IsNever: "\<not> accepts IsNever h v"
  by (simp add: accepts_def ret_def)

lemma lift_not_sentinel: "lift p \<noteq> IsNever" "lift p \<noteq> IsAny"
  by (simp_all add: lift_def)

lemma some_js_pure:
  "\<forall>isT\<in>set inspectors. is_pure isT \<Longrightarrow>
   some_js (\<lambda>isT. call isT h x) inspectors s =
     (Inr (\<exists>isT\<in>set inspectors. accepts isT h x), s)"
  by (induction inspectors) (auto simp: call_pure)

lemma decides_isAnyOf:
  "\<forall>isT\<in>set inspectors. is_pure isT \<Longrightarrow>
   decides (isAnyOf inspectors) (\<lambda>h x. \<exists>isT\<in>set inspectors. accepts isT h x)"
  by (simp add: decides_def isAnyOf_def some_js_pure)

lemma is_pure_isOptional: "is_pure isT \<Longrightarrow> is_pure (isOptional isT)"
  unfolding isOptional_def is_pure_def [of "isAnyOf _"]
  using decides_isAnyOf [of "[lift (\<lambda>h. isUndefined), isT]"] is_pure_lift by auto

lemma accepts_isOptional:
  "is_pure isT \<Longrightarrow> accepts (isOptional isT) h v = (v = VUndefined \<or> accepts isT h v)"
  unfolding isOptional_def
  using decides_accepts [OF decides_isAnyOf [of "[lift (\<lambda>h. isUndefined), isT]"], of h v]
  by (auto simp: is_pure_lift accepts_lift isUndefined_def)

lemma isOptional_undefined: "call (isOptional isT) h VUndefined s = (Inr True, s)"
  by (simp add: isOptional_def isAnyOf_def lift_def ret_def isUndefined_def)

section \<open>The store of the concrete runs\<close>

lemma store_at:
  "store 20 = array_literal [VStr ''a'', VStr ''b'']"
  "store 21 = array_literal []"
  "store 22 = object_literal [(''name'', VStr ''Ann'')]"
  "store 23 = object_literal [(''name'', VStr ''Ann''), (''extra'', VNum (Finite 1))]"
  "store 24 = map_object [(VStr ''a'', VNum (Finite 1)), (VStr ''b'', VNum (Finite 2))] [30, 31]"
  "store 25 = map_object [] []"
  "store 26 = object_literal [(''valueOf'', VNum (Finite 1))]"
  "store 27 = array_literal [VStr ''x'', VNum (Finite 1), VBool True, VStr ''extra'']"
  "store 28 = array_literal [VStr ''x'', VNum (Finite 1), VBool True]"
  "store 29 = array_literal [VStr ''a'', VNum (Finite 1)]"
  "store 32 = object_literal [(''name'', VNum (Finite 7))]"
  "store 33 = object_literal []"
  "store 34 = failing_iterable"
  "store 35 = object_literal [(''isPrototypeOf'', VNum (Finite 1))]"
  by (simp_all add: store_def)

lemmas obj_simps =
  array_literal_def object_literal_def map_object_def failing_iterable_def

section \<open>Numeric boundaries\<close>

lemma strict_eq_iff: "strict_eq x v = (x = v \<and> v \<noteq> VNum NaN)"
  by (cases x; cases v) auto

lemma ToUint32_fixed:
  "(Finite (of_int (ToUint32 n)) = n) = (\<exists>k. 0 \<le> k \<and> k < 2 ^ 32 \<and> n = Finite (of_int k))"
proof (cases n)
  case (Finite r)
  show ?thesis
  proof
    assume "Finite (of_int (ToUint32 n)) = n"
    then have "n = Finite (of_int (ToUint32 n))" by simp
    moreover have "0 \<le> ToUint32 n" "ToUint32 n < 2 ^ 32" using Finite by simp_all
    ultimately show "\<exists>k. 0 \<le> k \<and> k < 2 ^ 32 \<and> n = Finite (of_int k)" by blast
  next
    assume "\<exists>k. 0 \<le> k \<and> k < 2 ^ 32 \<and> n = Finite (of_int k)"
    then obtain k where "0 \<le> k" "k < 2 ^ 32" "n = Finite (of_int k)" by blast
    then show "Finite (of_int (ToUint32 n)) = n" by simp
  qed
qed auto

lemma Number_isInteger_iff: "Number_isInteger x = (\<exists>k. x = VNum (Finite (of_int k)))"
proof (cases x)
  case (VNum n)
  show ?thesis
  proof (cases n)
    case (Finite r)
    have "(of_int \<lfloor>r\<rfloor> = r) = (\<exists>k. r = of_int k)"
      by (metis floor_of_int)
    with VNum Finite show ?thesis by simp
  qed (simp_all add: VNum)
qed simp_all

lemma isUInt32_iff:
  "isUInt32 h (VNum n) = Inr (\<exists>k. 0 \<le> k \<and> k < 2 ^ 32 \<and> n = Finite (of_int k))"
  using ToUint32_fixed [of n] by (cases n) auto

lemma isUInt8_iff: "isUInt8 x = (\<exists>k. 0 \<le> k \<and> k \<le> 255 \<and> x = VNum (Finite (of_int k)))"
proof (cases x)
  case (VNum n)
  show ?thesis
  proof (cases n)
    case (Finite r)
    have "(of_int \<lfloor>r\<rfloor> = r \<and> 0 \<le> r \<and> r \<le> 255) = (\<exists>k. 0 \<le> k \<and> k \<le> 255 \<and> r = of_int k)"
    proof
      assume a: "of_int \<lfloor>r\<rfloor> = r \<and> 0 \<le> r \<and> r \<le> 255"
      then have "0 \<le> \<lfloor>r\<rfloor>" "\<lfloor>r\<rfloor> \<le> 255" by (simp_all add: floor_le_iff le_floor_iff)
      with a show "\<exists>k. 0 \<le> k \<and> k \<le> 255 \<and> r = of_int k" by metis
    next
      assume "\<exists>k. 0 \<le> k \<and> k \<le> 255 \<and> r = of_int k"
      then show "of_int \<lfloor>r\<rfloor> = r \<and> 0 \<le> r \<and> r \<le> 255" by auto
    qed
    with VNum Finite show ?thesis using Number_isInteger_iff [of x] by simp
  qed (simp_all add: VNum)
qed simp_all

text \<open>
  Claim C7. \<^verbatim>\<open>isUInt32(4294967295)\<close> is true, \<^verbatim>\<open>isUInt32(4294967296)\<close> and
  \<^verbatim>\<open>isUInt32(-1)\<close> are false; \<^verbatim>\<open>isUInt8(255)\<close> is true and \<^verbatim>\<open>isUInt8(256)\<close> false;
  \<^verbatim>\<open>isInt(NaN)\<close> and \<^verbatim>\<open>isInt(Infinity)\<close> are false while \<^verbatim>\<open>isNumber(NaN)\<close> is
  true. In general: on a number, \<^verbatim>\<open>x >>> 0 === x\<close> holds exactly for the integers from
  0 up to \<open>2^32 - 1\<close>; \<^verbatim>\<open>isUInt8\<close> accepts exactly the integers from 0 to 255;
  \<^verbatim>\<open>isInt\<close> accepts exactly the finite numbers without a fractional part, and
  \<^verbatim>\<open>isNumber\<close> accepts every number, finite or not.
\<close>

theorem numeric_boundaries:
  "isUInt32 h (VNum (Finite 4294967295)) = Inr True \<and>
   isUInt32 h (VNum (Finite 4294967296)) = Inr False \<and>
   isUInt32 h (VNum (Finite (- 1))) = Inr False \<and>
   isUInt8 (VNum (Finite 255)) \<and>
   \<not> isUInt8 (VNum (Finite 256)) \<and>
   \<not> isInt (VNum NaN) \<and>
   \<not> isInt (VNum PInf) \<and>
   isNumber h (VNum NaN) \<and>
   isUInt32 h (VNum n) = Inr (\<exists>k. 0 \<le> k \<and> k < 2 ^ 32 \<and> n = Finite (of_int k)) \<and>
   isUInt8 x = (\<exists>k. 0 \<le> k \<and> k \<le> 255 \<and> x = VNum (Finite (of_int k))) \<and>
   isInt (VNum n) = (\<exists>k. n = Finite (of_int k)) \<and>
   isNumber h (VNum n)"
proof -
  have "isInt (VNum n) = (\<exists>k. n = Finite (of_int k))"
    by (simp add: isInt_def Number_isInteger_iff)
  moreover note isUInt32_iff [of h n] isUInt8_iff [of x]
  ultimately show ?thesis
    by (simp add: isInt_def isNumber_def)
qed

section \<open>Union and intersection\<close>

text \<open>
  Claim C9. Applied to any value in any state, \<^verbatim>\<open>isAnyOf(isA)\<close> and \<^verbatim>\<open>isAllOf(isA)\<close>
  do exactly what \<^verbatim>\<open>isA\<close> does (same result or exception, same final state), for every
  inspector \<^verbatim>\<open>isA\<close>; \<^verbatim>\<open>isAnyOf()\<close> returns false and \<^verbatim>\<open>isAllOf()\<close> returns true on
  every value.
\<close>

theorem any_all_identities:
  "call (isAnyOf [isA]) h v s = call isA h v s \<and>
   call (isAllOf [isA]) h v s = call isA h v s \<and>
   call (isAnyOf []) h v s = (Inr False, s) \<and>
   call (isAllOf []) h v s = (Inr True, s)"
  by (auto simp: isAnyOf_def isAllOf_def split: prod.splits sum.splits)

section \<open>The lazy inspector\<close>

text \<open>
  Claim C6. Applied to \<open>x\<close> in a state \<open>s\<close>, \<^verbatim>\<open>is(f)\<close> first runs the supplier
  \<open>f\<close> in \<open>s\<close>. When \<open>f\<close> returns an inspector, leaving the state \<open>s'\<close>, the
  application continues as that inspector applied to \<open>x\<close> in \<open>s'\<close>, and this is its
  outcome. When \<open>f\<close> throws, the application throws the same exception, with the
  state as \<open>f\<close> left it; nothing is caught or turned into \<^verbatim>\<open>false\<close>. Both hold in
  every state, so a later application runs the supplier again and follows what it answers
  then: nothing is remembered from an earlier application.
\<close>

theorem is_lazy_spec:
  "(lazy s = (Inr isT, s') \<longrightarrow> call (is_lazy lazy) h x s = call isT h x s') \<and>
   (lazy' t = (Inl e, t') \<longrightarrow> call (is_lazy lazy') h x t = (Inl e, t'))"
  by (simp add: is_lazy_def)

theorem is_lazy_spec_witness:
  "call (is_lazy alternating_supplier) store (VStr ''a'') 0 = (Inr True, 1) \<and>
   call (is_lazy alternating_supplier) store (VStr ''a'') 1 = (Inr False, 2) \<and>
   call (is_lazy throwing_supplier) store (VStr ''a'') 0
     = (Inl (Thrown (VStr ''Evaluation error'')), 1)"
  using
    is_lazy_spec [where lazy = alternating_supplier and s = 0 and isT = "lift isString"
      and s' = 1 and h = store and x = "VStr ''a''" and lazy' = throwing_supplier and t = 0
      and e = "Thrown (VStr ''Evaluation error'')" and t' = 1]
    is_lazy_spec [where lazy = alternating_supplier and s = 1 and isT = "lift isNumber"
      and s' = 2 and h = store and x = "VStr ''a''" and lazy' = throwing_supplier and t = 0
      and e = "Thrown (VStr ''Evaluation error'')" and t' = 1]
  by (simp add: alternating_supplier_def throwing_supplier_def lift_def ret_def isString_def
      isNumber_def)

section \<open>Exact values\<close>

text \<open>
  Claim C8, as amended. \<^verbatim>\<open>isExact(v)(x)\<close> is true exactly when \<open>x\<close> is the value
  \<open>v\<close> and \<open>v\<close> is not \<^verbatim>\<open>NaN\<close>: \<^verbatim>\<open>isExact(NaN)\<close> rejects every input, \<^verbatim>\<open>NaN\<close>
  included, and for every other \<open>v\<close> the inspector accepts \<open>v\<close> itself. Two object
  references match exactly when they are the same reference, whatever the objects hold.
\<close>

theorem isExact_spec:
  "call (isExact v) h x s = (Inr (x = v \<and> v \<noteq> VNum NaN), s) \<and>
   call (isExact (VObj a)) h (VObj b) s = (Inr (b = a), s)"
  by (cases x; cases v) (auto simp: isExact_def ret_def)

text \<open>The claim as stated fails at \<^verbatim>\<open>isExact(NaN)(NaN)\<close>, which is false.\<close>

theorem isExact_NaN_counterexample:
  "call (isExact (VNum NaN)) store (VNum NaN) () = (Inr False, ())"
  by (simp add: isExact_def ret_def)

section \<open>Primitive values\<close>

text \<open>
  Claim C10. \<^verbatim>\<open>isPrimitive(x)\<close> is true exactly when \<open>x\<close> is \<^verbatim>\<open>null\<close> or
  \<^verbatim>\<open>undefined\<close>, a number (\<^verbatim>\<open>NaN\<close> and the infinities included), a primitive
  string or an instance of \<^verbatim>\<open>String\<close>, or one of the two booleans. So
  \<^verbatim>\<open>new String(s)\<close> counts as primitive, \<^verbatim>\<open>new Number(n)\<close> and
  \<^verbatim>\<open>new Boolean(b)\<close> do not.
\<close>

theorem isPrimitive_spec:
  "isPrimitive h x =
     (x = VNull \<or> x = VUndefined \<or> (\<exists>n. x = VNum n) \<or> (\<exists>s. x = VStr s) \<or>
      instanceof h x String_ctor \<or> x = VBool True \<or> x = VBool False) \<and>
   isPrimitive h (VNum NaN) \<and> isPrimitive h (VNum PInf) \<and>
   isPrimitive (h(a := boxed_string s)) (VObj a) \<and>
   \<not> isPrimitive (h(a := boxed_number n)) (VObj a) \<and>
   \<not> isPrimitive (h(a := boxed_boolean b)) (VObj a)"
  by (cases x)
     (auto simp: isPrimitive_def isNullish_def isNumber_def isString_def isBoolean_def
        boxed_string_def boxed_number_def boxed_boolean_def)

section \<open>Iterables\<close>

lemma for_of_every_pure:
  "is_pure isT \<Longrightarrow>
   for_of_every (call isT h) vs None s = (Inr (\<forall>v\<in>set vs. accepts isT h v), s)"
  by (induction vs) (simp_all add: call_pure)

lemma isIterable_iff: "isIterable h x = (iteration h x \<noteq> None)"
  by (cases x) (simp_all add: isIterable_def isNullish_def)

lemma iterableOf_pure:
  "is_pure isT \<Longrightarrow>
   iterableOf isT h (Some (Production vs None)) s =
     (Inr (isT \<noteq> IsNever \<and> (\<forall>v\<in>set vs. accepts isT h v)), s)"
  by (cases isT) (simp_all add: iterableOf_def accepts_IsAny for_of_every_pure)

text \<open>
  Claim C1. For \<^verbatim>\<open>isIterableOf(isT)(x)\<close>:
  \<^item> a value that is not iterable gives false, whatever \<open>isT\<close> is;
  \<^item> on an iterable, \<^verbatim>\<open>isIterableOf(isNever)\<close> gives false and
    \<^verbatim>\<open>isIterableOf(isAny)\<close> gives true, whatever the iteration would produce and even
    if it would fail: the argument is not iterated;
  \<^item> an iterable that produces nothing gives true for every inspector other than
    \<^verbatim>\<open>isNever\<close>;
  \<^item> when iterating \<open>x\<close> produces the values \<open>vs\<close> and finishes, and \<open>isT\<close> computes
    a predicate and is not \<^verbatim>\<open>isNever\<close>, the result is true exactly when \<open>isT\<close>
    accepts every value of \<open>vs\<close>.
\<close>

theorem isIterableOf_spec:
  "(\<not> isIterable h x \<longrightarrow> call (isIterableOf isT) h x s = (Inr False, s)) \<and>
   (isIterable h y \<longrightarrow>
      call (isIterableOf IsNever) h y s = (Inr False, s) \<and>
      call (isIterableOf IsAny) h y s = (Inr True, s)) \<and>
   (iteration h z = Some (Production [] None) \<and> isU \<noteq> IsNever \<longrightarrow>
      call (isIterableOf isU) h z s = (Inr True, s)) \<and>
   (iteration h w = Some (Production vs None) \<and> is_pure isV \<and> isV \<noteq> IsNever \<longrightarrow>
      call (isIterableOf isV) h w s = (Inr (\<forall>v\<in>set vs. accepts isV h v), s))"
proof (intro conjI impI)
  assume "\<not> isIterable h x"
  then show "call (isIterableOf isT) h x s = (Inr False, s)"
    by (simp add: isIterableOf_def iterableOf_def)
next
  assume "isIterable h y"
  then obtain p where "iteration h y = Some p"
    by (auto simp: isIterable_iff)
  then show "call (isIterableOf IsNever) h y s = (Inr False, s)"
    and "call (isIterableOf IsAny) h y s = (Inr True, s)"
    by (simp_all add: isIterableOf_def iterableOf_def isIterable_iff)
next
  assume "iteration h z = Some (Production [] None) \<and> isU \<noteq> IsNever"
  then show "call (isIterableOf isU) h z s = (Inr True, s)"
    by (cases isU) (simp_all add: isIterableOf_def iterableOf_def isIterable_iff)
next
  assume a: "iteration h w = Some (Production vs None) \<and> is_pure isV \<and> isV \<noteq> IsNever"
  then have "isIterable h w" by (simp add: isIterable_iff)
  with a show "call (isIterableOf isV) h w s = (Inr (\<forall>v\<in>set vs. accepts isV h v), s)"
    by (simp add: isIterableOf_def iterableOf_pure)
qed

text \<open>
  Runs: a number is not iterable; the empty array fails \<^verbatim>\<open>isNever\<close> and passes
  \<^verbatim>\<open>isString\<close>; an object whose iteration would raise passes \<^verbatim>\<open>isAny\<close>;
  \<^verbatim>\<open>["a", "b"]\<close> is an iterable of strings and \<^verbatim>\<open>["a", 1]\<close> is not.
\<close>

theorem isIterableOf_spec_witness:
  "call (isIterableOf (lift isString)) store (VNum (Finite 5)) () = (Inr False, ()) \<and>
   call (isIterableOf IsNever) store (VObj 21) () = (Inr False, ()) \<and>
   call (isIterableOf IsAny) store (VObj 34) () = (Inr True, ()) \<and>
   call (isIterableOf (lift isString)) store (VObj 21) () = (Inr True, ()) \<and>
   call (isIterableOf (lift isString)) store (VObj 20) () = (Inr True, ()) \<and>
   call (isIterableOf (lift isString)) store (VObj 29) () = (Inr False, ())"
  using
    isIterableOf_spec [where h = store and s = "()" and x = "VNum (Finite 5)"
      and isT = "lift isString" and y = "VObj 21" and z = "VObj 21" and isU = "lift isString"
      and w = "VObj 20" and vs = "[VStr ''a'', VStr ''b'']" and isV = "lift isString"]
    isIterableOf_spec [where h = store and s = "()" and x = "VNum (Finite 5)"
      and isT = "lift isString" and y = "VObj 34" and z = "VObj 21" and isU = "lift isString"
      and w = "VObj 29" and vs = "[VStr ''a'', VNum (Finite 1)]" and isV = "lift isString"]
  by (simp add: store_at obj_simps isIterable_def isNullish_def is_pure_lift accepts_lift
      lift_not_sentinel isString_def)

section \<open>Maps\<close>

text \<open>
  Claim C5, as amended. \<^verbatim>\<open>isMapOf(isK, isV)(x)\<close> is false when \<open>x\<close> is not an
  instance of \<^verbatim>\<open>Map\<close>. On a Map with the entries \<open>es\<close>, for inspectors that compute
  predicates, it is true exactly when neither \<open>isK\<close> nor \<open>isV\<close> is the function
  \<^verbatim>\<open>isNever\<close> itself, every key satisfies \<open>isK\<close> and every value satisfies \<open>isV\<close>;
  keys and values are quantified separately. On an empty Map the result is therefore
  true exactly when neither inspector is \<^verbatim>\<open>isNever\<close>.
\<close>

theorem isMapOf_spec:
  "(\<not> isMap h x \<longrightarrow> call (isMapOf isK isV) h x s = (Inr False, s)) \<and>
   (isMap h (VObj a) \<and> map_data (h a) = Some es \<and> is_pure isK' \<and> is_pure isV' \<longrightarrow>
      call (isMapOf isK' isV') h (VObj a) s =
        (Inr (isK' \<noteq> IsNever \<and> isV' \<noteq> IsNever \<and>
              (\<forall>k\<in>set (map fst es). accepts isK' h k) \<and>
              (\<forall>v\<in>set (map snd es). accepts isV' h v)), s))"
  by (auto simp: isMapOf_def Map_keys_def Map_values_def iterableOf_pure)

text \<open>
  Runs: an object literal is no Map; \<^verbatim>\<open>new Map([["a", 1], ["b", 2]])\<close> is a Map from
  strings to numbers and not one from numbers to numbers; the empty Map passes
  \<^verbatim>\<open>isMapOf(isString, isNumber)\<close> and fails \<^verbatim>\<open>isMapOf(isString, isNever)\<close>.
\<close>

theorem isMapOf_spec_witness:
  "call (isMapOf (lift isString) (lift isNumber)) store (VObj 22) () = (Inr False, ()) \<and>
   call (isMapOf (lift isString) (lift isNumber)) store (VObj 24) () = (Inr True, ()) \<and>
   call (isMapOf (lift isNumber) (lift isNumber)) store (VObj 24) () = (Inr False, ()) \<and>
   call (isMapOf (lift isString) (lift isNumber)) store (VObj 25) () = (Inr True, ()) \<and>
   call (isMapOf (lift isString) IsNever) store (VObj 25) () = (Inr False, ())"
  using
    isMapOf_spec [where h = store and s = "()" and x = "VObj 22" and isK = "lift isString"
      and isV = "lift isNumber" and a = 24 and isK' = "lift isString" and isV' = "lift isNumber"
      and es = "[(VStr ''a'', VNum (Finite 1)), (VStr ''b'', VNum (Finite 2))]"]
    isMapOf_spec [where h = store and s = "()" and x = "VObj 22" and isK = "lift isString"
      and isV = "lift isNumber" and a = 24 and isK' = "lift isNumber" and isV' = "lift isNumber"
      and es = "[(VStr ''a'', VNum (Finite 1)), (VStr ''b'', VNum (Finite 2))]"]
    isMapOf_spec [where h = store and s = "()" and x = "VObj 22" and isK = "lift isString"
      and isV = "lift isNumber" and a = 25 and isK' = "lift isString" and isV' = "lift isNumber"
      and es = "[]"]
    isMapOf_spec [where h = store and s = "()" and x = "VObj 22" and isK = "lift isString"
      and isV = "lift isNumber" and a = 25 and isK' = "lift isString" and isV' = IsNever
      and es = "[]"]
  by (simp add: store_at obj_simps isMap_def is_pure_lift is_pure_IsNever accepts_lift
      lift_not_sentinel isString_def isNumber_def)

text \<open>The claim as stated fails on the empty Map with \<^verbatim>\<open>isNever\<close> as the key inspector:
  no key violates it, and the result is false.\<close>

theorem isMapOf_never_counterexample:
  "isMap store (VObj 25) \<and> map_data (store 25) = Some [] \<and>
   call (isMapOf IsNever IsAny) store (VObj 25) () = (Inr False, ())"
  by (simp add: isMapOf_def Map_keys_def iterableOf_def isMap_def store_at obj_simps)

section \<open>Tuples\<close>

lemma tuple_loop_pure:
  "\<forall>isT\<in>set inspectors. is_pure isT \<Longrightarrow>
   tuple_loop inspectors h x i s =
     (Inr (\<forall>k. i \<le> k \<and> k < length inspectors \<longrightarrow>
              accepts (inspectors ! k) h (get h x (Index k))), s)"
proof (induction "length inspectors - i" arbitrary: i)
  case 0
  then show ?case by (subst tuple_loop.simps) auto
next
  case (Suc n)
  then have lt: "i < length inspectors" by simp
  have n: "n = length inspectors - Suc i" using Suc.hyps(2) by simp
  have pure: "is_pure (inspectors ! i)" using Suc.prems lt by simp
  have step: "(\<forall>k. i \<le> k \<and> k < length inspectors \<longrightarrow> P k) =
              (P i \<and> (\<forall>k. Suc i \<le> k \<and> k < length inspectors \<longrightarrow> P k))" for P
    using lt by (metis Suc_leD Suc_leI le_eq_less_or_eq order_refl)
  show ?case
    by (subst tuple_loop.simps)
       (simp add: lt call_pure [OF pure] Suc.hyps(1) [OF n Suc.prems] step)
qed

lemma tuple_loop_agree:
  "\<forall>k<length inspectors. get h x' (Index k) = get h x (Index k) \<Longrightarrow>
   tuple_loop inspectors h x' i s = tuple_loop inspectors h x i s"
proof (induction "length inspectors - i" arbitrary: i s)
  case 0
  then show ?case by (simp add: tuple_loop.simps)
next
  case (Suc n)
  then have lt: "i < length inspectors" by simp
  have n: "n = length inspectors - Suc i" using Suc.hyps(2) by simp
  have eq: "get h x' (Index i) = get h x (Index i)" using Suc.prems lt by simp
  show ?case
    by (subst (1 2) tuple_loop.simps)
       (simp add: lt eq Suc.hyps(1) [OF n Suc.prems] split: prod.splits sum.splits)
qed

text \<open>
  Claim C2. For \<^verbatim>\<open>isTupleOf(i_1, ..., i_n)\<close>:
  \<^item> a value that is not an array gives false;
  \<^item> on an array \<open>a\<close>, for inspectors that compute predicates, the result is the
    conjunction of \<^verbatim>\<open>i_k(a[k-1])\<close> for \<open>k\<close> from 1 to \<open>n\<close> (this needs no bound on
    the length of \<open>a\<close>: an index past the end reads \<^verbatim>\<open>undefined\<close>);
  \<^item> two arrays that agree at the indices below \<open>n\<close> get the same outcome from every
    list of \<open>n\<close> inspectors, whatever the arrays hold from index \<open>n\<close> on.
\<close>

theorem isTupleOf_spec:
  "(\<not> isArray h x \<longrightarrow> call (isTupleOf inspectors) h x s = (Inr False, s)) \<and>
   (isArray h a \<and> (\<forall>isT\<in>set pures. is_pure isT) \<longrightarrow>
      call (isTupleOf pures) h a s =
        (Inr (\<forall>k<length pures. accepts (pures ! k) h (get h a (Index k))), s)) \<and>
   (isArray h b \<and> isArray h b' \<and>
    (\<forall>k<length inspectors'. get h b' (Index k) = get h b (Index k)) \<longrightarrow>
      call (isTupleOf inspectors') h b' s = call (isTupleOf inspectors') h b s)"
  by (simp add: isTupleOf_def tuple_loop_pure tuple_loop_agree)

text \<open>
  Runs, with \<^verbatim>\<open>isTupleOf(isString, isNumber, isBoolean)\<close>: an object literal fails;
  \<^verbatim>\<open>["x", 1, true]\<close> passes; \<^verbatim>\<open>["a", "b"]\<close> fails; \<^verbatim>\<open>["x", 1, true, "extra"]\<close>
  gets the outcome of \<^verbatim>\<open>["x", 1, true]\<close>.
\<close>

theorem isTupleOf_spec_witness:
  "call (isTupleOf [lift isString, lift isNumber, lift (\<lambda>h. isBoolean)]) store (VObj 22) ()
     = (Inr False, ()) \<and>
   call (isTupleOf [lift isString, lift isNumber, lift (\<lambda>h. isBoolean)]) store (VObj 28) ()
     = (Inr True, ()) \<and>
   call (isTupleOf [lift isString, lift isNumber, lift (\<lambda>h. isBoolean)]) store (VObj 20) ()
     = (Inr False, ()) \<and>
   call (isTupleOf [lift isString, lift isNumber, lift (\<lambda>h. isBoolean)]) store (VObj 27) ()
     = call (isTupleOf [lift isString, lift isNumber, lift (\<lambda>h. isBoolean)]) store (VObj 28) ()"
  using
    isTupleOf_spec [where h = store and s = "()" and x = "VObj 22"
      and inspectors = "[lift isString, lift isNumber, lift (\<lambda>h. isBoolean)]"
      and a = "VObj 28" and pures = "[lift isString, lift isNumber, lift (\<lambda>h. isBoolean)]"
      and b = "VObj 28" and b' = "VObj 27"
      and inspectors' = "[lift isString, lift isNumber, lift (\<lambda>h. isBoolean)]"]
    isTupleOf_spec [where h = store and s = "()" and x = "VObj 22"
      and inspectors = "[lift isString, lift isNumber, lift (\<lambda>h. isBoolean)]"
      and a = "VObj 20" and pures = "[lift isString, lift isNumber, lift (\<lambda>h. isBoolean)]"
      and b = "VObj 28" and b' = "VObj 27"
      and inspectors' = "[lift isString, lift isNumber, lift (\<lambda>h. isBoolean)]"]
  by (auto simp: store_at obj_simps isArray_def is_pure_lift accepts_lift isString_def
      isNumber_def isBoolean_def less_Suc_eq numeral_3_eq_3)

section \<open>Object shapes\<close>

lemma object_loop_pure:
  "\<forall>(k, isV)\<in>set shape. is_pure isV \<Longrightarrow>
   object_loop shape h x s = (Inr (\<forall>(k, isV)\<in>set shape. accepts isV h (get h x k)), s)"
  by (induction shape) (auto simp: call_pure)

lemma object_loop_agree:
  "\<forall>k\<in>fst ` set shape. get h x' k = get h x k \<Longrightarrow>
   object_loop shape h x' s = object_loop shape h x s"
  by (induction shape arbitrary: s) (auto split: prod.splits sum.splits)

lemma get_with_property:
  "h a' = with_property (h a) k v \<Longrightarrow> k' \<noteq> k \<Longrightarrow> get h (VObj a') k' = get h (VObj a) k'"
  by (simp add: with_property_def map_add_def split: option.splits)

lemma isObject_with_property:
  "h a' = with_property (h a) k v \<Longrightarrow> isObject h (VObj a') = isObject h (VObj a)"
  by (simp add: with_property_def isObject_def)

lemma get_absent: "\<not> has_property h x key \<Longrightarrow> get h x key = VUndefined"
  by (cases x) (auto split: option.splits)

text \<open>
  Claim C4. For \<^verbatim>\<open>isObjectOf(s)\<close>:
  \<^item> a value that is not an object gives false;
  \<^item> on an object \<open>x\<close>, for a shape whose inspectors compute predicates, the result is
    true exactly when, for every key of \<open>s\<close>, \<^verbatim>\<open>s[key]\<close> accepts \<^verbatim>\<open>x[key]\<close>;
  \<^item> properties not named in \<open>s\<close> are ignored: two objects of one store that have the
    same \<^verbatim>\<open>x[key]\<close> for every key of \<open>s\<close> get the same outcome, from every shape;
  \<^item> in particular an object that has the properties of \<open>x\<close> and one more, under a key
    that is not in \<open>s\<close>, gets the outcome of \<open>x\<close>;
  \<^item> when \<open>x\<close> has no property \<open>key\<close>, own or inherited, \<^verbatim>\<open>x[key]\<close> is
    \<^verbatim>\<open>undefined\<close>, and that is what the inspector receives: a shape entry
    \<^verbatim>\<open>isOptional(isT)\<close> accepts the missing key, whatever \<open>isT\<close> is.
\<close>

theorem isObjectOf_spec:
  "(\<not> isObject h x \<longrightarrow> call (isObjectOf shape) h x s = (Inr False, s)) \<and>
   (isObject h y \<and> (\<forall>(k, isV)\<in>set pures. is_pure isV) \<longrightarrow>
      call (isObjectOf pures) h y s =
        (Inr (\<forall>(k, isV)\<in>set pures. accepts isV h (get h y k)), s)) \<and>
   (isObject h z \<and> isObject h z' \<and> (\<forall>k\<in>fst ` set shape'. get h z' k = get h z k) \<longrightarrow>
      call (isObjectOf shape') h z' s = call (isObjectOf shape') h z s) \<and>
   (h a' = with_property (h a) key v \<and> key \<notin> fst ` set shape'' \<longrightarrow>
      call (isObjectOf shape'') h (VObj a') s = call (isObjectOf shape'') h (VObj a) s) \<and>
   (isObject h u \<and> \<not> has_property h u missing \<longrightarrow>
      get h u missing = VUndefined \<and>
      call (isObjectOf [(missing, isOptional isT)]) h u s = (Inr True, s))"
proof (intro conjI impI)
  assume "\<not> isObject h x"
  then show "call (isObjectOf shape) h x s = (Inr False, s)"
    by (simp add: isObjectOf_def)
next
  assume "isObject h y \<and> (\<forall>(k, isV)\<in>set pures. is_pure isV)"
  then show "call (isObjectOf pures) h y s =
        (Inr (\<forall>(k, isV)\<in>set pures. accepts isV h (get h y k)), s)"
    by (simp add: isObjectOf_def object_loop_pure)
next
  assume "isObject h z \<and> isObject h z' \<and> (\<forall>k\<in>fst ` set shape'. get h z' k = get h z k)"
  then show "call (isObjectOf shape') h z' s = call (isObjectOf shape') h z s"
    by (simp add: isObjectOf_def object_loop_agree)
next
  assume a: "h a' = with_property (h a) key v \<and> key \<notin> fst ` set shape''"
  then have "\<forall>k\<in>fst ` set shape''. get h (VObj a') k = get h (VObj a) k"
    using get_with_property [of h a' a key v] by metis
  then have "object_loop shape'' h (VObj a') s = object_loop shape'' h (VObj a) s"
    by (rule object_loop_agree)
  with a show "call (isObjectOf shape'') h (VObj a') s = call (isObjectOf shape'') h (VObj a) s"
    by (simp add: isObjectOf_def isObject_with_property [of h a' a key v])
next
  assume a: "isObject h u \<and> \<not> has_property h u missing"
  then show "get h u missing = VUndefined" by (simp add: get_absent)
  with a show "call (isObjectOf [(missing, isOptional isT)]) h u s = (Inr True, s)"
    by (simp add: isObjectOf_def isOptional_undefined)
qed

text \<open>
  Runs, with the shape \<^verbatim>\<open>{name: isString, nick: isOptional(isString)}\<close>: a string is
  no object; \<^verbatim>\<open>{name: "Ann"}\<close> passes, its missing \<^verbatim>\<open>nick\<close> reading
  \<^verbatim>\<open>undefined\<close>; \<^verbatim>\<open>{name: 7}\<close> fails; \<^verbatim>\<open>{name: "Ann", extra: 1}\<close> gets the
  outcome of \<^verbatim>\<open>{name: "Ann"}\<close>.
\<close>

theorem isObjectOf_spec_witness:
  "call (isObjectOf [(Name ''name'', lift isString), (Name ''nick'', isOptional (lift isString))])
     store (VStr ''Ann'') () = (Inr False, ()) \<and>
   call (isObjectOf [(Name ''name'', lift isString), (Name ''nick'', isOptional (lift isString))])
     store (VObj 22) () = (Inr True, ()) \<and>
   call (isObjectOf [(Name ''name'', lift isString), (Name ''nick'', isOptional (lift isString))])
     store (VObj 32) () = (Inr False, ()) \<and>
   call (isObjectOf [(Name ''name'', lift isString), (Name ''nick'', isOptional (lift isString))])
     store (VObj 23) () =
   call (isObjectOf [(Name ''name'', lift isString), (Name ''nick'', isOptional (lift isString))])
     store (VObj 22) () \<and>
   get store (VObj 22) (Name ''nick'') = VUndefined \<and>
   call (isObjectOf [(Name ''nick'', isOptional (lift isString))]) store (VObj 22) ()
     = (Inr True, ())"
proof -
  let ?shape = "[(Name ''name'', lift isString), (Name ''nick'', isOptional (lift isString))]
                  :: unit shape"
  note spec = isObjectOf_spec [where h = store and s = "()" and x = "VStr ''Ann''"
      and shape = ?shape and pures = ?shape and shape' = ?shape and shape'' = ?shape
      and z = "VObj 22" and z' = "VObj 23" and a = 22 and a' = 23
      and key = "Name ''extra''" and v = "VNum (Finite 1)"
      and u = "VObj 22" and missing = "Name ''nick''" and isT = "lift isString"]
  have pures: "\<forall>(k, isV)\<in>set ?shape. is_pure isV"
    by (simp add: is_pure_lift is_pure_isOptional)
  have objs: "\<not> isObject store (VStr ''Ann'')" "isObject store (VObj 22)"
    "isObject store (VObj 23)" "isObject store (VObj 32)"
    by (simp_all add: isObject_def store_at obj_simps)
  have ext: "store 23 = with_property (store 22) (Name ''extra'') (VNum (Finite 1))"
    by (simp add: store_at obj_simps with_property_def)
  have missing: "\<not> has_property store (VObj 22) (Name ''nick'')"
    by (simp add: store_at obj_simps inherited_from_Object_def Object_prototype_def)
  have name22: "get store (VObj 22) (Name ''name'') = VStr ''Ann''"
    and name32: "get store (VObj 32) (Name ''name'') = VNum (Finite 7)"
    by (simp_all add: store_at obj_simps)
  from spec [where y = "VObj 22"] spec [where y = "VObj 32"] pures objs ext missing name22 name32
  show ?thesis
    by (simp add: accepts_lift accepts_isOptional is_pure_lift isString_def)
qed

section \<open>Partial shapes\<close>

lemma partial_loop_pure:
  "\<forall>(k, isV)\<in>set shape. is_pure isV \<Longrightarrow>
   \<forall>key\<in>set keys. map_of shape key = None \<longrightarrow> inherited_member key = None \<Longrightarrow>
   partial_loop keys shape h x s =
     (Inr (\<forall>key\<in>set keys. \<forall>isV. map_of shape key = Some isV \<longrightarrow>
              accepts isV h (get h x key)), s)"
proof (induction keys)
  case Nil
  then show ?case by simp
next
  case (Cons key keys)
  show ?case
  proof (cases "map_of shape key")
    case None
    with Cons show ?thesis by (simp add: shape_has_def shape_get_def)
  next
    case (Some isV)
    then have "(key, isV) \<in> set shape" by (rule map_of_SomeD)
    with Cons.prems(1) have "is_pure isV" by auto
    with Some Cons show ?thesis by (simp add: shape_has_def shape_get_def call_pure)
  qed
qed

text \<open>
  What \<^verbatim>\<open>isPartialOf(s)\<close> does where the slip below does not show: a value that is
  not an object gives false; an object without enumerable keys gives true for every
  shape; and when no enumerable key of \<open>x\<close> that \<open>s\<close> leaves undefined is the name of a
  member of \<^verbatim>\<open>Object.prototype\<close>, the result is true exactly when, for every
  enumerable key of \<open>x\<close> that \<open>s\<close> defines, \<^verbatim>\<open>s[key]\<close> accepts \<^verbatim>\<open>x[key]\<close>.
\<close>

lemma isPartialOf_own_keys:
  "(\<not> isObject h x \<longrightarrow> call (isPartialOf shape) h x s = (Inr False, s)) \<and>
   (isObject h y \<and> for_in h y = [] \<longrightarrow> call (isPartialOf shape) h y s = (Inr True, s)) \<and>
   (isObject h z \<and> (\<forall>(k, isV)\<in>set pures. is_pure isV) \<and>
    (\<forall>key\<in>set (for_in h z). map_of pures key = None \<longrightarrow> inherited_member key = None) \<longrightarrow>
      call (isPartialOf pures) h z s =
        (Inr (\<forall>key\<in>set (for_in h z). \<forall>isV. map_of pures key = Some isV \<longrightarrow>
                 accepts isV h (get h z key)), s))"
  by (simp add: isPartialOf_def partial_loop_pure)

text \<open>
  Claim C3 says that \<^verbatim>\<open>isPartialOf(s)(o)\<close> checks the keys of \<open>o\<close> that are keys of
  \<open>s\<close> and ignores every other key of \<open>o\<close>. The code tests \<^verbatim>\<open>key in type\<close>, which
  is also true for the names \<open>s\<close> inherits from \<^verbatim>\<open>Object.prototype\<close>, and then calls
  the inherited member as if it were the inspector. With the shape \<^verbatim>\<open>{id: isString}\<close>:
  on \<^verbatim>\<open>{valueOf: 1}\<close>, whose only enumerable key is \<^verbatim>\<open>valueOf\<close>, the call raises
  \<^verbatim>\<open>TypeError\<close>; on \<^verbatim>\<open>{isPrototypeOf: 1}\<close> the result is false; on
  \<^verbatim>\<open>{name: "Ann", extra: 1}\<close>, whose keys are no such names, it is true, as the claim
  says for all three.
\<close>

theorem isPartialOf_inherited_key:
  "isObject store (VObj 26) \<and> for_in store (VObj 26) = [Name ''valueOf''] \<and>
   call (isPartialOf [(Name ''id'', lift isString)]) store (VObj 26) () = (Inl TypeError, ()) \<and>
   call (isPartialOf [(Name ''id'', lift isString)]) store (VObj 35) () = (Inr False, ()) \<and>
   call (isPartialOf [(Name ''id'', lift isString)]) store (VObj 23) () = (Inr True, ())"
  by (simp add: isPartialOf_def isObject_def store_at obj_simps shape_has_def shape_get_def
      Object_prototype_def)

end
